theory Spec2Isabelle
  imports Complex_Main "HOL-Library.Sublist"
begin

section \<open>Python values and exceptions\<close>

text \<open>
  The values that cross the interfaces of the three modules: keyword arguments of a UDF,
  the arguments of a workflow step, the result of an action. A \<open>Role\<close> is a value too,
  since the registry's wrapper receives the caller identity as the keyword \<open>__role\<close>.
\<close>

record Role =
  role_type :: string
  user_id :: "string option"

datatype pyval =
    VNone
  | VBool bool
  | VInt int
  | VStr string
  | VList "pyval list"
  | VDict "(string \<times> pyval) list"
  | VRole Role

text \<open>
  A Python dict with string keys, in insertion order. \<open>map_of\<close> is the lookup;
  \<open>dict_pop\<close> is \<open>d.pop(k, default)\<close>, which returns the value and removes the key.
\<close>

type_synonym pydict = "(string \<times> pyval) list"

definition dict_pop :: "pydict \<Rightarrow> string \<Rightarrow> pyval \<Rightarrow> pyval \<times> pydict" where
  "dict_pop d k dflt =
     ((case map_of d k of None \<Rightarrow> dflt | Some v \<Rightarrow> v), filter (\<lambda>kv. fst kv \<noteq> k) d)"

text \<open>
  One issue of a pydantic \<open>ValidationError\<close>: the field it is about and what is wrong
  with it.
\<close>

datatype issue = Missing string | WrongType string

text \<open>
  The exceptions of the registry and of the history correlator. \<open>ValidationError\<close> is
  pydantic's; \<open>Raised\<close> is any other exception, by class name and text, that an
  implementation or a collaborator raises.
\<close>

datatype py_error =
    ValueError string
  | KeyError string
  | IndexError string
  | TypeError string
  | AttributeError string
  | ValidationError "issue list"
  | Raised string string

text \<open>The error kinds of the specification, as the exceptions the code raises for them.\<close>

definition KeywordArgsRequired :: py_error where
  "KeywordArgsRequired = ValueError ''UDF must be called with keyword arguments.''"

definition NotCallable :: py_error where
  "NotCallable = ValueError ''Provided object is not a callable function.''"

text \<open>
  \<open>repr\<close> of a string, as \<open>{key!r}\<close> and the messages of the interpreter print it.
  The string stands between single quotes, or between double quotes when it holds a
  single quote and no double quote; a backslash, the enclosing quote, a line feed, a
  carriage return and a tab are escaped with a backslash, and any other control character
  is written \<open>\x\<close> and two hexadecimal digits. A byte above \<open>0x7f\<close> belongs to the
  encoding of a printable character and stands for itself.
\<close>

definition hex_digit :: "nat \<Rightarrow> char" where
  "hex_digit n = ''0123456789abcdef'' ! (n mod 16)"

definition repr_char :: "char \<Rightarrow> char \<Rightarrow> string" where
  "repr_char quote c =
     (if c = CHR 0x5C then [CHR 0x5C, CHR 0x5C]
      else if c = quote then [CHR 0x5C, quote]
      else if c = CHR 0x0A then [CHR 0x5C, CHR ''n'']
      else if c = CHR 0x0D then [CHR 0x5C, CHR ''r'']
      else if c = CHR 0x09 then [CHR 0x5C, CHR ''t'']
      else if (of_char c :: nat) < 32 \<or> (of_char c :: nat) = 127
      then [CHR 0x5C, CHR ''x'', hex_digit (of_char c div 16), hex_digit (of_char c mod 16)]
      else [c])"

definition repr_str :: "string \<Rightarrow> string" where
  "repr_str s =
     (let quote = (if CHR 0x27 \<in> set s \<and> CHR 0x22 \<notin> set s then CHR 0x22 else CHR 0x27)
      in [quote] @ concat (map (repr_char quote) s) @ [quote])"

text \<open>The name of the type of a value, as \<open>type(v).__name__\<close> gives it.\<close>

fun type_name :: "pyval \<Rightarrow> string" where
  "type_name VNone = ''NoneType''"
| "type_name (VBool _) = ''bool''"
| "type_name (VInt _) = ''int''"
| "type_name (VStr _) = ''str''"
| "type_name (VList _) = ''list''"
| "type_name (VDict _) = ''dict''"
| "type_name (VRole _) = ''Role''"

definition DuplicateKey :: "string \<Rightarrow> py_error" where
  "DuplicateKey key = ValueError (''UDF '' @ repr_str key @ '' is already registered.'')"


section \<open>The action registry\<close>

subsection \<open>Functions and their signatures\<close>

text \<open>
  A parameter annotation. In strict mode pydantic accepts for \<open>int\<close>, \<open>str\<close> and
  \<open>bool\<close> a value of exactly that type, and anything for \<open>Any\<close>.
\<close>

datatype annotation = AInt | AStr | ABool | AAny

fun strict_instance :: "annotation \<Rightarrow> pyval \<Rightarrow> bool" where
  "strict_instance AInt (VInt _) = True"
| "strict_instance AStr (VStr _) = True"
| "strict_instance ABool (VBool _) = True"
| "strict_instance AAny _ = True"
| "strict_instance _ _ = False"

text \<open>
  One entry of \<open>inspect.signature(fn).parameters\<close>: the name, the annotation, the default
  (\<open>None\<close> is \<open>param.empty\<close>: the parameter is required) and the documentation of an
  \<open>Annotated[..., Doc(...)]\<close>, if any. The model covers named parameters; a function
  with \<open>*args\<close> or \<open>**kwargs\<close> in its signature is outside it.
\<close>

record param =
  p_name :: string
  p_annotation :: annotation
  p_default :: "pyval option"
  p_doc :: "string option"

text \<open>
  The object handed to the decorator: its \<open>__name__\<close>, its \<open>__qualname__\<close> (which the
  interpreter prints in the \<open>TypeError\<close> of a call), whether \<open>callable(fn)\<close> and
  \<open>inspect.iscoroutinefunction(fn)\<close> hold, its signature, and its body as a function
  from the bound arguments to a result or an exception.
\<close>

record function_obj =
  fn_name :: string
  fn_qualname :: string
  fn_callable :: bool
  fn_coroutine :: bool
  fn_parameters :: "param list"
  fn_return_annotation :: "annotation option"
  fn_body :: "pydict \<Rightarrow> py_error + pyval"

subsection \<open>The derived argument model\<close>

text \<open>
  \<open>create_model(name, **fields)\<close>: the model's name and its fields, each with its type
  and its default (\<open>None\<close> is the Ellipsis: required). The model has pydantic's default
  configuration, whose \<open>extra\<close> setting is \<open>ignore\<close>.
\<close>

record args_model =
  model_name :: string
  model_fields :: "(string \<times> annotation \<times> pyval option) list"

text \<open>
  \<open>udf_slug\<close>, with \<open>slugify\<close> (of the package python-slugify) as a parameter.
\<close>

definition udf_slug :: "(string \<Rightarrow> string) \<Rightarrow> function_obj \<Rightarrow> string \<Rightarrow> string" where
  "udf_slug slugify func namespace = slugify namespace @ ''__'' @ fn_name func"

definition generate_model_from_function ::
  "(string \<Rightarrow> string) \<Rightarrow> function_obj \<Rightarrow> string \<Rightarrow> args_model \<times> annotation \<times> annotation"
where
  "generate_model_from_function slugify func namespace =
     (let fields = map (\<lambda>p. (p_name p, (p_annotation p, p_default p))) (fn_parameters func);
          input_model = \<lparr>model_name = udf_slug slugify func namespace @ ''_model'',
                         model_fields = fields\<rparr>;
          rtype = (case fn_return_annotation func of None \<Rightarrow> AAny | Some a \<Rightarrow> a)
      in (input_model, rtype, rtype))"

definition get_signature_docs :: "function_obj \<Rightarrow> (string \<times> string) list" where
  "get_signature_docs f =
     concat (map (\<lambda>p. case p_doc p of None \<Rightarrow> [] | Some d \<Rightarrow> [(p_name p, d)])
               (fn_parameters f))"

text \<open>
  \<open>args_cls.model_validate(kwargs, strict=True)\<close>: each field is looked up in the
  input; one that is absent and has no default is reported missing, one that is present
  is checked against its type. Keys of the input that are no field of the model are
  not looked at. The validation fails when there is at least one issue.
\<close>

fun field_issues :: "pydict \<Rightarrow> string \<times> annotation \<times> pyval option \<Rightarrow> issue list" where
  "field_issues kwargs (name, ty, dflt) =
     (case map_of kwargs name of
        None \<Rightarrow> (case dflt of None \<Rightarrow> [Missing name] | Some _ \<Rightarrow> [])
      | Some v \<Rightarrow> (if strict_instance ty v then [] else [WrongType name]))"

definition model_validate :: "args_model \<Rightarrow> pydict \<Rightarrow> py_error + unit" where
  "model_validate m kwargs =
     (let issues = concat (map (field_issues kwargs) (model_fields m))
      in if issues = [] then Inr () else Inl (ValidationError issues))"

subsection \<open>The registry and the wrapper\<close>

text \<open>
  The wrapper is a closure over the key, the function and the declared secrets; it is
  stored in the registry entry as that triple and run by \<open>call_wrapped\<close> below.
\<close>

record wrapped_fn =
  w_key :: string
  w_fn :: function_obj
  w_secrets :: "string list option"

record RegisteredUDF =
  fn :: wrapped_fn
  description :: string
  namespace :: string
  version :: "string option"
  secrets :: "string list option"
  args_cls :: args_model
  args_docs :: "(string \<times> string) list"
  rtype_cls :: annotation
  rtype_adapter :: annotation
  metadata :: pydict

type_synonym registry = "string \<Rightarrow> RegisteredUDF option"

definition registry_get :: "registry \<Rightarrow> string \<Rightarrow> py_error + RegisteredUDF" where
  "registry_get reg name =
     (case reg name of None \<Rightarrow> Inl (KeyError name) | Some udf \<Rightarrow> Inr udf)"

definition validate_args :: "registry \<Rightarrow> string \<Rightarrow> pyval list \<Rightarrow> pydict \<Rightarrow> py_error + unit" where
  "validate_args reg key args kwargs =
     (if length args > 0 then Inl (ValueError ''UDF must be called with keyword arguments.'')
      else case registry_get reg key of
             Inl e \<Rightarrow> Inl e
           | Inr udf \<Rightarrow> model_validate (args_cls udf) kwargs)"

text \<open>
  What a call of the wrapper does besides returning: it enters and leaves the sandbox and
  invokes the implementation. The trace lists these effects in order.
\<close>

datatype effect =
    SandboxEnter Role "string list option"
  | Invoked pydict
  | SandboxExit

text \<open>
  \<open>fn(**kwargs)\<close>: Python binds the keywords to the parameters before the body runs.
  A keyword that is no parameter, or a required parameter with no keyword, is a
  \<open>TypeError\<close> and the body does not run; otherwise the body runs on the keywords
  completed by the defaults.
\<close>

definition bind_arguments :: "function_obj \<Rightarrow> pydict \<Rightarrow> py_error + pydict" where
  "bind_arguments f kwargs =
     (case filter (\<lambda>kv. fst kv \<notin> set (map p_name (fn_parameters f))) kwargs of
        kv # _ \<Rightarrow> Inl (TypeError (fn_qualname f @ ''() got an unexpected keyword argument ''
                                    @ repr_str (fst kv)))
      | [] \<Rightarrow>
          (case filter (\<lambda>p. map_of kwargs (p_name p) = None \<and> p_default p = None)
                  (fn_parameters f) of
             p # _ \<Rightarrow> Inl (TypeError (fn_qualname f @ ''() missing 1 required positional argument: ''
                                        @ repr_str (p_name p)))
           | [] \<Rightarrow> Inr (map (\<lambda>p. (p_name p,
                                  (case map_of kwargs (p_name p) of
                                     Some v \<Rightarrow> v
                                   | None \<Rightarrow> the (p_default p))))
                          (fn_parameters f))))"

definition call_function :: "function_obj \<Rightarrow> pydict \<Rightarrow> (py_error + pyval) \<times> effect list" where
  "call_function f kwargs =
     (case bind_arguments f kwargs of
        Inl e \<Rightarrow> (Inl e, [])
      | Inr bound \<Rightarrow> (fn_body f bound, [Invoked bound]))"

text \<open>
  The body that the asynchronous and the synchronous wrapper share. \<open>AuthSandbox\<close> is
  a parameter: \<open>sandbox role secrets\<close> is \<open>None\<close> when the sandbox is entered and the
  exception when entering it fails. Leaving the sandbox happens on every path out of
  the call. A \<open>__role\<close> that is no \<open>Role\<close> has no \<open>user_id\<close>: reading it is an
  \<open>AttributeError\<close>.
\<close>

definition wrapped_body ::
  "(Role \<Rightarrow> string list option \<Rightarrow> py_error option) \<Rightarrow> registry \<Rightarrow> wrapped_fn
     \<Rightarrow> pyval list \<Rightarrow> pydict \<Rightarrow> (py_error + pyval) \<times> effect list"
where
  "wrapped_body sandbox reg w args kwargs =
     (case validate_args reg (w_key w) args kwargs of
        Inl e \<Rightarrow> (Inl e, [])
      | Inr _ \<Rightarrow>
          (case dict_pop kwargs ''__role'' (VRole \<lparr>role_type = ''service'', user_id = None\<rparr>) of
             (v, kwargs') \<Rightarrow>
               (case v of
                  VRole role \<Rightarrow>
                    (case sandbox role (w_secrets w) of
                       Some e \<Rightarrow> (Inl e, [])
                     | None \<Rightarrow>
                         (case call_function (w_fn w) kwargs' of
                            (res, tr) \<Rightarrow>
                              (res, SandboxEnter role (w_secrets w) # tr @ [SandboxExit])))
                | _ \<Rightarrow>
                    (Inl (AttributeError (repr_str (type_name v) @ '' object has no attribute ''
                                            @ repr_str ''user_id'')), []))))"

definition wrapped_fn_async ::
  "(Role \<Rightarrow> string list option \<Rightarrow> py_error option) \<Rightarrow> registry \<Rightarrow> wrapped_fn
     \<Rightarrow> pyval list \<Rightarrow> pydict \<Rightarrow> (py_error + pyval) \<times> effect list"
where
  "wrapped_fn_async = wrapped_body"

definition wrapped_fn_sync ::
  "(Role \<Rightarrow> string list option \<Rightarrow> py_error option) \<Rightarrow> registry \<Rightarrow> wrapped_fn
     \<Rightarrow> pyval list \<Rightarrow> pydict \<Rightarrow> (py_error + pyval) \<times> effect list"
where
  "wrapped_fn_sync = wrapped_body"

definition call_wrapped ::
  "(Role \<Rightarrow> string list option \<Rightarrow> py_error option) \<Rightarrow> registry \<Rightarrow> wrapped_fn
     \<Rightarrow> pyval list \<Rightarrow> pydict \<Rightarrow> (py_error + pyval) \<times> effect list"
where
  "call_wrapped sandbox reg w args kwargs =
     (if fn_coroutine (w_fn w) then wrapped_fn_async sandbox reg w args kwargs
      else wrapped_fn_sync sandbox reg w args kwargs)"

text \<open>
  \<open>register(description=..., secrets=..., namespace=..., version=..., **register_kwargs)\<close>
  applied to \<open>fn\<close>. It returns the wrapper, or the exception, together with the registry
  as the call leaves it.
\<close>

record register_args =
  r_description :: string
  r_secrets :: "string list option"
  r_namespace :: string
  r_version :: "string option"
  r_register_kwargs :: pydict

definition DEFAULT_NAMESPACE :: string where
  "DEFAULT_NAMESPACE = ''core''"

definition registry_key :: "string \<Rightarrow> function_obj \<Rightarrow> string" where
  "registry_key ns f = ns @ ''.'' @ fn_name f"

definition register ::
  "(string \<Rightarrow> string) \<Rightarrow> registry \<Rightarrow> register_args \<Rightarrow> function_obj
     \<Rightarrow> (py_error + wrapped_fn) \<times> registry"
where
  "register slugify reg a f =
     (let key = registry_key (r_namespace a) f;
          wrapped = \<lparr>w_key = key, w_fn = f, w_secrets = r_secrets a\<rparr>
      in if reg key \<noteq> None
         then (Inl (ValueError (''UDF '' @ repr_str key @ '' is already registered.'')), reg)
         else if \<not> fn_callable f
         then (Inl (ValueError ''Provided object is not a callable function.''), reg)
         else (case generate_model_from_function slugify f (r_namespace a) of
                 (acls, rcls, radapter) \<Rightarrow>
                   (Inr wrapped,
                    reg(key \<mapsto> \<lparr>fn = wrapped,
                                 description = r_description a,
                                 namespace = r_namespace a,
                                 version = r_version a,
                                 secrets = r_secrets a,
                                 args_cls = acls,
                                 args_docs = get_signature_docs f,
                                 rtype_cls = rcls,
                                 rtype_adapter = radapter,
                                 metadata = r_register_kwargs a\<rparr>))))"

section \<open>The action invocation controller\<close>

subsection \<open>Data model\<close>

text \<open>
  Modelled from the spec: the classes \<open>ActionStatement\<close>, \<open>RunContext\<close>,
  \<open>RunActionInput\<close> and \<open>DSLTaskErrorInfo\<close> of \<open>tracecat.dsl.models\<close> are missing;
  their fields are those the data model of the specification lists, under the names
  the controller and the correlator read them by. The step's \<open>id\<close> and \<open>description\<close>
  are \<open>stmt_id\<close> and \<open>stmt_description\<close> here, and the fields \<open>ref\<close>, \<open>message\<close>,
  \<open>type\<close> and \<open>attempt\<close> of \<open>DSLTaskErrorInfo\<close> carry the prefix \<open>info_\<close>.
\<close>

record ActionStatement =
  stmt_id :: "string option"
  ref :: string
  action :: string
  args :: pydict
  title :: string
  stmt_description :: string
  retry_policy :: pyval
  start_delay :: real

record RunContext =
  wf_id :: string
  wf_exec_id :: string
  environment :: string

record RunActionInput =
  task :: ActionStatement
  run_context :: RunContext

record DSLTaskErrorInfo =
  info_ref :: string
  info_message :: string
  info_type :: string
  info_attempt :: int

text \<open>
  temporalio's \<open>ApplicationError(message, *details, type=None, non_retryable=False)\<close>:
  what the controller surfaces, and what a nested call may raise. \<open>app_class\<close> is
  \<open>e.__class__.__name__\<close>.
\<close>

record application_error =
  app_class :: string
  message :: string
  details :: "DSLTaskErrorInfo list"
  type :: "string option"
  non_retryable :: bool

text \<open>
  Modelled from the spec: the class \<open>RegistryActionError\<close> of \<open>tracecat.types.exceptions\<close>
  is missing. A domain action error is "an action's own expected failure; carries a
  human-readable detail and an explicit retryable/non-retryable intent set by the
  action". \<open>de_class\<close> is \<open>e.__class__.__name__\<close> (the class or a subclass of it),
  \<open>de_str\<close> is \<open>str(e)\<close>, the human-readable detail, and \<open>de_retryable\<close> is the
  retry intent.
\<close>

record domain_error =
  de_class :: string
  de_str :: string
  de_retryable :: bool

text \<open>
  What a collaborator can raise, as the \<open>except\<close> clauses of the controller tell it
  apart: a \<open>RegistryActionError\<close>, an \<open>ApplicationError\<close>, any other instance of
  \<open>Exception\<close> (class name and text), and a \<open>BaseException\<close> that is no
  \<open>Exception\<close>, such as \<open>asyncio.CancelledError\<close>.
\<close>

datatype raised =
    RegistryActionError domain_error
  | ApplicationError application_error
  | OtherException string string
  | NonException string string

text \<open>
  The string of an \<open>ApplicationError\<close> is its message, with the type and a colon before it
  when the type is set.
\<close>

definition falsy :: "string option \<Rightarrow> bool" where
  "falsy t = (t = None \<or> t = Some [])"

definition str_application_error :: "application_error \<Rightarrow> string" where
  "str_application_error e =
     (if falsy (type e) then message e else the (type e) @ '': '' @ message e)"

fun class_name :: "raised \<Rightarrow> string" where
  "class_name (RegistryActionError e) = de_class e"
| "class_name (ApplicationError e) = app_class e"
| "class_name (OtherException k _) = k"
| "class_name (NonException k _) = k"

fun str_raised :: "raised \<Rightarrow> string" where
  "str_raised (RegistryActionError e) = de_str e"
| "str_raised (ApplicationError e) = str_application_error e"
| "str_raised (OtherException _ t) = t"
| "str_raised (NonException _ t) = t"

subsection \<open>Formatting\<close>

text \<open>An integer in decimal, as an f-string prints it.\<close>

definition digit_char :: "nat \<Rightarrow> char" where
  "digit_char d =
     (if d = 0 then CHR ''0'' else if d = 1 then CHR ''1'' else if d = 2 then CHR ''2''
      else if d = 3 then CHR ''3'' else if d = 4 then CHR ''4'' else if d = 5 then CHR ''5''
      else if d = 6 then CHR ''6'' else if d = 7 then CHR ''7'' else if d = 8 then CHR ''8''
      else CHR ''9'')"

function str_nat :: "nat \<Rightarrow> string" where
  "str_nat n = (if n < 10 then [digit_char n] else str_nat (n div 10) @ [digit_char (n mod 10)])"
  by pat_completeness auto
termination
  by (relation "measure (\<lambda>n. n)") auto

declare str_nat.simps [simp del]

definition str_int :: "int \<Rightarrow> string" where
  "str_int i = (if i < 0 then ''-'' @ str_nat (nat (- i)) else str_nat (nat i))"

definition newline :: char where
  "newline = CHR 0x0A"

text \<open>
  Modelled from the spec: the function \<open>context_locator\<close> of \<open>tracecat.dsl.common\<close> is
  missing. The message of a surfaced failure is "prefixed by a locator of the form
  \<open>[<namespace.action>@<ref>] (Attempt <n>)\<close>"; the brackets and the attempt are
  written by \<open>_contextualize_message\<close>, so the locator is the action key, an \<open>@\<close>
  and the ref.
\<close>

definition context_locator :: "ActionStatement \<Rightarrow> string \<Rightarrow> string" where
  "context_locator stmt loc = action stmt @ ''@'' @ ref stmt"

definition contextualize_message :: "ActionStatement \<Rightarrow> string \<Rightarrow> int \<Rightarrow> string \<Rightarrow> string" where
  "contextualize_message tsk msg attempt loc =
     ''['' @ context_locator tsk loc @ ''] (Attempt '' @ str_int attempt @ '')''
       @ [newline, newline] @ msg"

subsection \<open>Collaborators and effects\<close>

text \<open>
  Modelled from the spec: the handle of the execution client and the class
  \<open>StoreObjectPtr\<close> of \<open>tracecat.store.models\<close> are missing. The store backend returns
  a handle, and \<open>handle.to_pointer()\<close> "yields an opaque, serializable reference
  distinct from the underlying value": both are a key into the external store.
\<close>

datatype ActionRefHandle = ActionRefHandle string

datatype StoreObjectPtr = StoreObjectPtr string

text \<open>
  The collaborators of one attempt: the attempt number of \<open>activity.info()\<close>;
  \<open>asyncio.sleep\<close>, which returns (\<open>None\<close>) or raises, for instance when the attempt is
  cancelled during the delay; the execution client built for a role, with its two
  backends; and \<open>to_pointer\<close> of a handle.
\<close>

record runtime =
  attempt :: int
  sleep :: "real \<Rightarrow> raised option"
  run_action_memory_backend :: "Role \<Rightarrow> RunActionInput \<Rightarrow> raised + pyval"
  run_action_store_backend :: "Role \<Rightarrow> RunActionInput \<Rightarrow> raised + ActionRefHandle"
  to_pointer :: "ActionRefHandle \<Rightarrow> raised + StoreObjectPtr"

text \<open>
  The effects of an attempt, in the order they happen. Of a log call the trace keeps the
  event text, not the bound fields.
\<close>

datatype activity_effect =
    CtxRunSet RunContext
  | CtxLoggerSet
  | LogInfo string
  | LogError string
  | Sleep real
  | RunMemoryBackend Role RunActionInput
  | RunStoreBackend Role RunActionInput
  | ToPointer ActionRefHandle

subsection \<open>The run operations\<close>

definition run_action_activity ::
  "runtime \<Rightarrow> RunActionInput \<Rightarrow> Role \<Rightarrow> (raised + pyval) \<times> activity_effect list"
where
  "run_action_activity rt input role =
     (let tsk = task input;
          n = attempt rt;
          tr0 = [CtxRunSet (run_context input), CtxLoggerSet, LogInfo ''Run action activity''];
          delayed = (if start_delay tsk > 0
                     then (sleep rt (start_delay tsk),
                           [LogInfo ''Starting action with delay'', Sleep (start_delay tsk)])
                     else (None, []));
          tr1 = tr0 @ snd delayed
      in case fst delayed of
           Some e \<Rightarrow> (Inl e, tr1)
         | None \<Rightarrow>
             (let tr2 = tr1 @ [RunMemoryBackend role input]
              in case run_action_memory_backend rt role input of
                   Inr v \<Rightarrow> (Inr v, tr2)
                 | Inl (RegistryActionError e) \<Rightarrow>
                     (let kind = de_class e;
                          msg = de_str e;
                          err_locator = contextualize_message tsk msg n ''run_action'';
                          err_info = \<lparr>info_ref = ref tsk, info_message = msg,
                                      info_type = kind, info_attempt = n\<rparr>
                      in (Inl (ApplicationError
                                 \<lparr>app_class = ''ApplicationError'', message = err_locator,
                                  details = [err_info], type = Some kind,
                                  non_retryable = False\<rparr>),
                          tr2 @ [LogError ''Application exception occurred'']))
                 | Inl (ApplicationError e) \<Rightarrow>
                     (let err_info = \<lparr>info_ref = ref tsk,
                                      info_message = str_application_error e,
                                      info_type = (if falsy (type e) then app_class e
                                                   else the (type e)),
                                      info_attempt = n\<rparr>
                      in (Inl (ApplicationError
                                 \<lparr>app_class = ''ApplicationError'',
                                  message = contextualize_message tsk (message e) n ''run_action'',
                                  details = [err_info], type = type e,
                                  non_retryable = non_retryable e\<rparr>),
                          tr2 @ [LogError ''ApplicationError occurred'']))
                 | Inl (OtherException k t) \<Rightarrow>
                     (let kind = k;
                          raw_msg = kind @ '' occurred:'' @ [newline] @ t;
                          err_info = \<lparr>info_ref = ref tsk, info_message = raw_msg,
                                      info_type = kind, info_attempt = n\<rparr>
                      in (Inl (ApplicationError
                                 \<lparr>app_class = ''ApplicationError'',
                                  message = contextualize_message tsk raw_msg n ''run_action'',
                                  details = [err_info], type = Some kind,
                                  non_retryable = True\<rparr>),
                          tr2 @ [LogError raw_msg]))
                 | Inl (NonException k t) \<Rightarrow> (Inl (NonException k t), tr2)))"

text \<open>
  In store mode one handler takes every instance of \<open>Exception\<close>; the failure it raises
  leaves \<open>type\<close> and \<open>non_retryable\<close> at their defaults.
\<close>

definition store_failure :: "ActionStatement \<Rightarrow> int \<Rightarrow> raised \<Rightarrow> raised" where
  "store_failure tsk n e =
     (case e of
        NonException k t \<Rightarrow> NonException k t
      | _ \<Rightarrow>
          (let kind = class_name e
           in ApplicationError
                \<lparr>app_class = ''ApplicationError'',
                 message = contextualize_message tsk (str_raised e) n ''run_action'',
                 details = [\<lparr>info_ref = ref tsk, info_message = str_raised e,
                             info_type = kind, info_attempt = n\<rparr>],
                 type = None,
                 non_retryable = False\<rparr>))"

definition run_action_with_store_activity ::
  "runtime \<Rightarrow> RunActionInput \<Rightarrow> Role \<Rightarrow> (raised + StoreObjectPtr) \<times> activity_effect list"
where
  "run_action_with_store_activity rt input role =
     (let n = attempt rt;
          tr0 = [CtxRunSet (run_context input), CtxLoggerSet, LogInfo ''Run action activity''];
          delayed = (if start_delay (task input) > 0
                     then (sleep rt (start_delay (task input)),
                           [LogInfo ''Starting action with delay'',
                            Sleep (start_delay (task input))])
                     else (None, []));
          tr1 = tr0 @ snd delayed
      in case fst delayed of
           Some e \<Rightarrow> (Inl e, tr1)
         | None \<Rightarrow>
             (let tr2 = tr1 @ [RunStoreBackend role input]
              in case run_action_store_backend rt role input of
                   Inl e \<Rightarrow> (Inl (store_failure (task input) n e), tr2)
                 | Inr handle \<Rightarrow>
                     (case to_pointer rt handle of
                        Inl e \<Rightarrow> (Inl (store_failure (task input) n e), tr2 @ [ToPointer handle])
                      | Inr ptr \<Rightarrow> (Inr ptr, tr2 @ [ToPointer handle]))))"

section \<open>The execution-history correlator\<close>

subsection \<open>Strings\<close>

text \<open>
  \<open>s.split(sep)\<close>: the pieces of \<open>s\<close> between the occurrences of \<open>sep\<close>, found from
  the left; an empty separator is a \<open>ValueError\<close>. \<open>split_from sep acc s\<close> scans \<open>s\<close>
  with the current piece, reversed, in \<open>acc\<close>.
\<close>

function split_from :: "string \<Rightarrow> string \<Rightarrow> string \<Rightarrow> string list" where
  "split_from sep acc [] = [rev acc]"
| "split_from sep acc (c # cs) =
     (if sep \<noteq> [] \<and> prefix sep (c # cs)
      then rev acc # split_from sep [] (drop (length sep) (c # cs))
      else split_from sep (c # acc) cs)"
  by pat_completeness auto
termination
  by (relation "measure (\<lambda>(sep, acc, s). length s)") (auto simp: neq_Nil_conv)

definition str_split :: "string \<Rightarrow> string \<Rightarrow> py_error + string list" where
  "str_split s sep =
     (if sep = [] then Inl (ValueError ''empty separator'') else Inr (split_from sep [] s))"

text \<open>\<open>sep.join(parts)\<close>.\<close>

fun str_join :: "string \<Rightarrow> string list \<Rightarrow> string" where
  "str_join sep [] = []"
| "str_join sep [p] = p"
| "str_join sep (p # q # ps) = p @ sep @ str_join sep (q # ps)"

text \<open>
  \<open>*stem, leaf = s.split(delimiter)\<close> takes the last piece as the leaf and the pieces
  before it as the stem; unpacking an empty list is a \<open>ValueError\<close>.
\<close>

definition destructure_slugified_namespace :: "string \<Rightarrow> string \<Rightarrow> py_error + string \<times> string" where
  "destructure_slugified_namespace s delimiter =
     (case str_split s delimiter of
        Inl e \<Rightarrow> Inl e
      | Inr parts \<Rightarrow>
          (if parts = [] then Inl (ValueError ''not enough values to unpack'')
           else Inr (str_join ''.'' (butlast parts), last parts)))"

subsection \<open>History events\<close>

text \<open>
  The event types of the durable executor's history that the correlator tells apart;
  \<open>EVENT_TYPE_OTHER\<close> stands for the remaining values of the enumeration.
\<close>

datatype EventType =
    EVENT_TYPE_UNSPECIFIED
  | EVENT_TYPE_WORKFLOW_EXECUTION_STARTED
  | EVENT_TYPE_WORKFLOW_EXECUTION_COMPLETED
  | EVENT_TYPE_WORKFLOW_EXECUTION_FAILED
  | EVENT_TYPE_ACTIVITY_TASK_SCHEDULED
  | EVENT_TYPE_ACTIVITY_TASK_STARTED
  | EVENT_TYPE_ACTIVITY_TASK_COMPLETED
  | EVENT_TYPE_ACTIVITY_TASK_FAILED
  | EVENT_TYPE_OTHER nat

text \<open>
  The failure record of a failed event: \<open>message\<close>, \<open>stack_trace\<close>, \<open>cause\<close> (\<open>None\<close> when
  the field is not set) and \<open>application_failure_info\<close>.
\<close>

datatype Failure =
  Failure (failure_message: string) (failure_stack_trace: string)
    (failure_cause: "Failure option") (failure_application_failure_info: pydict)

text \<open>
  A history event: its id, its type, the \<open>data\<close> of each entry of
  \<open>activity_task_scheduled_event_attributes.input.payloads\<close>, and the failure of
  \<open>activity_task_failed_event_attributes\<close> and of
  \<open>workflow_execution_failed_event_attributes\<close>.
\<close>

record HistoryEvent =
  event_id :: int
  event_type :: EventType
  scheduled_input_payloads :: "string list"
  activity_task_failed_failure :: Failure
  workflow_execution_failed_failure :: Failure

text \<open>The input of an action, under the name the correlator imports it by.\<close>

type_synonym UDFActionInput = RunActionInput

record EventGroup =
  group_event_id :: int
  udf_namespace :: string
  udf_name :: string
  udf_key :: string
  action_id :: "string option"
  action_ref :: string
  action_title :: string
  action_description :: string
  action_input :: UDFActionInput
  action_result :: "pyval option"

text \<open>
  \<open>EventGroup.from_scheduled_activity\<close>. The parameter \<open>loads\<close> is \<open>orjson.loads\<close>
  followed by the construction of the \<open>UDFActionInput\<close> from the decoded mapping: it
  gives the input or the exception of either step. Indexing an empty \<open>payloads\<close> is an
  \<open>IndexError\<close>.
\<close>

definition from_scheduled_activity ::
  "(string \<Rightarrow> py_error + UDFActionInput) \<Rightarrow> HistoryEvent \<Rightarrow> py_error + EventGroup"
where
  "from_scheduled_activity loads event =
     (if event_type event \<noteq> EVENT_TYPE_ACTIVITY_TASK_SCHEDULED
      then Inl (ValueError ''Event is not an activity task scheduled event.'')
      else case scheduled_input_payloads event of
             [] \<Rightarrow> Inl (IndexError ''list index out of range'')
           | payload # _ \<Rightarrow>
               (case loads payload of
                  Inl e \<Rightarrow> Inl e
                | Inr ainput \<Rightarrow>
                    (case destructure_slugified_namespace (action (task ainput)) ''.'' of
                       Inl e \<Rightarrow> Inl e
                     | Inr (ns, name) \<Rightarrow>
                         Inr \<lparr>group_event_id = event_id event,
                              udf_namespace = ns,
                              udf_name = name,
                              udf_key = action (task ainput),
                              action_id = stmt_id (task ainput),
                              action_ref = ref (task ainput),
                              action_title = title (task ainput),
                              action_description = stmt_description (task ainput),
                              action_input = ainput,
                              action_result = None\<rparr>)))"

record EventFailure =
  ef_message :: string
  ef_stack_trace :: string
  ef_cause :: "pydict option"
  ef_application_failure_info :: pydict

text \<open>
  \<open>EventFailure.from_history_event\<close>. \<open>MessageToDict\<close> of protobuf is a parameter, one
  for each of the two messages it is applied to. Reading the \<open>cause\<close> of a failure
  gives a message also when the field is not set, so the test against \<open>None\<close> always
  succeeds.
\<close>

definition from_history_event ::
  "(Failure option \<Rightarrow> pydict) \<Rightarrow> (pydict \<Rightarrow> pydict) \<Rightarrow> HistoryEvent \<Rightarrow> py_error + EventFailure"
where
  "from_history_event cause_to_dict info_to_dict event =
     (case (if event_type event = EVENT_TYPE_ACTIVITY_TASK_FAILED
            then Inr (activity_task_failed_failure event)
            else if event_type event = EVENT_TYPE_WORKFLOW_EXECUTION_FAILED
            then Inr (workflow_execution_failed_failure event)
            else Inl (ValueError ''Event type not supported for failure extraction.'')) of
        Inl e \<Rightarrow> Inl e
      | Inr failure \<Rightarrow>
          Inr \<lparr>ef_message = failure_message failure,
               ef_stack_trace = failure_stack_trace failure,
               ef_cause = Some (cause_to_dict (failure_cause failure)),
               ef_application_failure_info =
                 info_to_dict (failure_application_failure_info failure)\<rparr>)"

text \<open>The error kind of the specification for an event the correlator does not handle.\<close>

fun UnsupportedEventKind :: "py_error \<Rightarrow> bool" where
  "UnsupportedEventKind (ValueError m) =
     (m = ''Event is not an activity task scheduled event.''
      \<or> m = ''Event type not supported for failure extraction.'')"
| "UnsupportedEventKind _ = False"

section \<open>Properties as predicates\<close>


text \<open>
  The delay of an attempt elapses when there is none, or when the sleep returns rather
  than raises.
\<close>

definition delay_elapses :: "runtime \<Rightarrow> RunActionInput \<Rightarrow> bool" where
  "delay_elapses rt input =
     (if start_delay (task input) > 0 then sleep rt (start_delay (task input)) = None else True)"

text \<open>
  The failure that the specification describes for an unknown error of class \<open>kind\<close> and
  text \<open>detail\<close>: non-retryable, with the message \<open><kind> occurred:\<close>, a line break and the
  detail, after the locator prefix.
\<close>

definition unknown_error_surfaced ::
  "ActionStatement \<Rightarrow> int \<Rightarrow> string \<Rightarrow> string \<Rightarrow> raised + 'a \<Rightarrow> bool"
where
  "unknown_error_surfaced tsk n kind detail outcome =
     (case outcome of
        Inl (ApplicationError ae) \<Rightarrow>
          non_retryable ae
          \<and> message ae = contextualize_message tsk (kind @ '' occurred:'' @ [newline] @ detail)
                            n ''run_action''
      | _ \<Rightarrow> False)"

text \<open>
  The retry intent of a domain error is preserved when the surfaced failure is
  non-retryable exactly if the action said so.
\<close>

definition retry_intent_preserved :: "domain_error \<Rightarrow> raised + 'a \<Rightarrow> bool" where
  "retry_intent_preserved e outcome =
     (case outcome of
        Inl (ApplicationError ae) \<Rightarrow> non_retryable ae = (\<not> de_retryable e)
      | _ \<Rightarrow> False)"

text \<open>
  The dispatches of a trace, the delays it sleeps for, and its part before the first
  dispatch.
\<close>

fun is_dispatch :: "activity_effect \<Rightarrow> bool" where
  "is_dispatch (RunMemoryBackend _ _) = True"
| "is_dispatch (RunStoreBackend _ _) = True"
| "is_dispatch _ = False"

fun sleeps :: "activity_effect list \<Rightarrow> real list" where
  "sleeps [] = []"
| "sleeps (Sleep d # tr) = d # sleeps tr"
| "sleeps (_ # tr) = sleeps tr"

definition before_dispatch :: "activity_effect list \<Rightarrow> activity_effect list" where
  "before_dispatch tr = takeWhile (\<lambda>e. \<not> is_dispatch e) tr"

section \<open>Example inputs\<close>

text \<open>
  The action \<open>core.add\<close> with the schema \<open>{a: int, b: int} -> int\<close>, registered in an
  empty registry; a \<open>slugify\<close> that leaves a lower-case word as it is; a sandbox that
  can be entered.
\<close>

definition slugify_word :: "string \<Rightarrow> string" where
  "slugify_word s = s"

definition open_sandbox :: "Role \<Rightarrow> string list option \<Rightarrow> py_error option" where
  "open_sandbox role secs = None"

definition add_body :: "pydict \<Rightarrow> py_error + pyval" where
  "add_body bound =
     (case (map_of bound ''a'', map_of bound ''b'') of
        (Some (VInt a), Some (VInt b)) \<Rightarrow> Inr (VInt (a + b))
      | _ \<Rightarrow> Inl (TypeError ''unsupported operand type(s) for +''))"

definition core_add :: function_obj where
  "core_add =
     \<lparr>fn_name = ''add'', fn_qualname = ''add'', fn_callable = True, fn_coroutine = False,
      fn_parameters =
        [\<lparr>p_name = ''a'', p_annotation = AInt, p_default = None, p_doc = None\<rparr>,
         \<lparr>p_name = ''b'', p_annotation = AInt, p_default = None, p_doc = None\<rparr>],
      fn_return_annotation = Some AInt, fn_body = add_body\<rparr>"

definition core_args :: register_args where
  "core_args =
     \<lparr>r_description = ''Add two integers'', r_secrets = None,
      r_namespace = DEFAULT_NAMESPACE, r_version = None, r_register_kwargs = []\<rparr>"

definition empty_registry :: registry where
  "empty_registry = (\<lambda>k. None)"

definition add_wrapped :: wrapped_fn where
  "add_wrapped = \<lparr>w_key = ''core.add'', w_fn = core_add, w_secrets = None\<rparr>"

definition add_registry :: registry where
  "add_registry = snd (register slugify_word empty_registry core_args core_add)"

definition caller :: Role where
  "caller = \<lparr>role_type = ''user'', user_id = Some ''u-1''\<rparr>"

text \<open>
  The step \<open>step1\<close> of action \<open>core.fail\<close>, and collaborators at attempt 1: both
  backends raise a domain error with the text \<open>boom\<close> that the action marked
  non-retryable.
\<close>

definition step1 :: ActionStatement where
  "step1 =
     \<lparr>stmt_id = Some ''act-1'', ref = ''step1'', action = ''core.fail'', args = [],
      title = ''Fail'', stmt_description = ''Always fails'', retry_policy = VNone,
      start_delay = 0\<rparr>"

definition context1 :: RunContext where
  "context1 = \<lparr>wf_id = ''wf-1'', wf_exec_id = ''wf-1:exec-1'', environment = ''default''\<rparr>"

definition fail_input :: RunActionInput where
  "fail_input = \<lparr>task = step1, run_context = context1\<rparr>"

definition boom :: domain_error where
  "boom = \<lparr>de_class = ''RegistryActionError'', de_str = ''boom'', de_retryable = False\<rparr>"

definition pointer_of :: "ActionRefHandle \<Rightarrow> raised + StoreObjectPtr" where
  "pointer_of h = (case h of ActionRefHandle k \<Rightarrow> Inr (StoreObjectPtr k))"

definition failing_runtime :: runtime where
  "failing_runtime =
     \<lparr>attempt = 1,
      sleep = (\<lambda>d. None),
      run_action_memory_backend = (\<lambda>role input. Inl (RegistryActionError boom)),
      run_action_store_backend = (\<lambda>role input. Inl (RegistryActionError boom)),
      to_pointer = pointer_of\<rparr>"

text \<open>
  Collaborators whose backends raise a \<open>RuntimeError\<close>, and collaborators whose
  backends succeed; a step that starts after a delay of 5.
\<close>

definition crashing_runtime :: runtime where
  "crashing_runtime =
     \<lparr>attempt = 2,
      sleep = (\<lambda>d. None),
      run_action_memory_backend = (\<lambda>role input. Inl (OtherException ''RuntimeError'' ''disk full'')),
      run_action_store_backend = (\<lambda>role input. Inl (OtherException ''RuntimeError'' ''disk full'')),
      to_pointer = pointer_of\<rparr>"

definition working_runtime :: runtime where
  "working_runtime =
     \<lparr>attempt = 1,
      sleep = (\<lambda>d. None),
      run_action_memory_backend = (\<lambda>role input. Inr (VInt 3)),
      run_action_store_backend = (\<lambda>role input. Inr (ActionRefHandle ''obj-1'')),
      to_pointer = pointer_of\<rparr>"

definition delayed_input :: RunActionInput where
  "delayed_input = \<lparr>task = step1\<lparr>start_delay := 5\<rparr>, run_context = context1\<rparr>"

text \<open>
  A scheduled event whose first payload decodes to a step of the action
  \<open>integrations.slack.post_message\<close>, and a decoder that knows this payload only.
\<close>

definition slack_input :: UDFActionInput where
  "slack_input =
     \<lparr>task = \<lparr>stmt_id = Some ''act-2'', ref = ''notify'',
               action = ''integrations.slack.post_message'', args = [(''channel'', VStr ''ops'')],
               title = ''Notify'', stmt_description = ''Post to Slack'', retry_policy = VNone,
               start_delay = 0\<rparr>,
      run_context = context1\<rparr>"

definition loads_example :: "string \<Rightarrow> py_error + UDFActionInput" where
  "loads_example data =
     (if data = ''slack-step'' then Inr slack_input
      else Inl (Raised ''JSONDecodeError'' ''unexpected character''))"

definition no_failure :: Failure where
  "no_failure = Failure [] [] None []"

definition scheduled_event :: HistoryEvent where
  "scheduled_event =
     \<lparr>event_id = 5, event_type = EVENT_TYPE_ACTIVITY_TASK_SCHEDULED,
      scheduled_input_payloads = [''slack-step'', ''second payload''],
      activity_task_failed_failure = no_failure,
      workflow_execution_failed_failure = no_failure\<rparr>"

definition started_event :: HistoryEvent where
  "started_event =
     \<lparr>event_id = 1, event_type = EVENT_TYPE_WORKFLOW_EXECUTION_STARTED,
      scheduled_input_payloads = [],
      activity_task_failed_failure = no_failure,
      workflow_execution_failed_failure = no_failure\<rparr>"

text \<open>A second function of the name \<open>add\<close>, with another signature and body.\<close>

definition other_add :: function_obj where
  "other_add = core_add\<lparr>fn_parameters := [], fn_body := (\<lambda>bound. Inr VNone)\<rparr>"

section \<open>Verified properties\<close>

subsection \<open>The registry\<close>

lemma repr_core_add: "repr_str ''core.add'' = [CHR 0x27] @ ''core.add'' @ [CHR 0x27]"
  by (simp add: repr_str_def repr_char_def Let_def)


lemma register_add:
  "register slugify_word empty_registry core_args core_add = (Inr add_wrapped, add_registry)"
  by (simp add: add_registry_def register_def empty_registry_def core_args_def core_add_def
      add_wrapped_def registry_key_def DEFAULT_NAMESPACE_def generate_model_from_function_def
      Let_def)


lemma call_wrapped_body:
  "call_wrapped sandbox reg w pos kwargs = wrapped_body sandbox reg w pos kwargs"
  by (simp add: call_wrapped_def wrapped_fn_async_def wrapped_fn_sync_def)

text \<open>
  C6. A call of a wrapper with at least one positional argument fails with
  \<open>KeywordArgsRequired\<close>, whatever the keyword arguments, the registry and the sandbox
  are, and has no effect: the sandbox is not entered and the implementation is not
  invoked.
\<close>

theorem positional_arguments_rejected:
  assumes "pos \<noteq> []"
  shows "call_wrapped sandbox reg w pos kwargs = (Inl KeywordArgsRequired, [])"
  using assms
  by (simp add: call_wrapped_body wrapped_body_def validate_args_def KeywordArgsRequired_def)

theorem positional_arguments_rejected_witness:
  "[VInt 1] \<noteq> [] \<and>
   call_wrapped open_sandbox add_registry add_wrapped [VInt 1] [(''a'', VInt 1), (''b'', VInt 2)]
     = (Inl (ValueError ''UDF must be called with keyword arguments.''), [])"
proof -
  have h: "[VInt 1] \<noteq> []" by simp
  from positional_arguments_rejected [OF h, of open_sandbox add_registry add_wrapped
      "[(''a'', VInt 1), (''b'', VInt 2)]"]
  show ?thesis by (simp add: KeywordArgsRequired_def)
qed

text \<open>
  C4. When a registration under a key has succeeded, a second registration under the
  same key fails with \<open>DuplicateKey\<close> and returns the registry as it was; the entry of
  the key is the one the first registration stored.
\<close>

theorem duplicate_registration_rejected:
  assumes first: "register slugify reg a1 f1 = (Inr w, reg1)"
    and same: "registry_key (r_namespace a2) f2 = registry_key (r_namespace a1) f1"
  shows "register slugify' reg1 a2 f2
           = (Inl (DuplicateKey (registry_key (r_namespace a1) f1)), reg1)
       \<and> reg1 (registry_key (r_namespace a1) f1) =
           Some \<lparr>fn = w, description = r_description a1, namespace = r_namespace a1,
                 version = r_version a1, secrets = r_secrets a1,
                 args_cls = fst (generate_model_from_function slugify f1 (r_namespace a1)),
                 args_docs = get_signature_docs f1,
                 rtype_cls = fst (snd (generate_model_from_function slugify f1 (r_namespace a1))),
                 rtype_adapter =
                   snd (snd (generate_model_from_function slugify f1 (r_namespace a1))),
                 metadata = r_register_kwargs a1\<rparr>"
proof -
  let ?k = "registry_key (r_namespace a1) f1"
  from first have entry: "reg1 ?k =
           Some \<lparr>fn = w, description = r_description a1, namespace = r_namespace a1,
                 version = r_version a1, secrets = r_secrets a1,
                 args_cls = fst (generate_model_from_function slugify f1 (r_namespace a1)),
                 args_docs = get_signature_docs f1,
                 rtype_cls = fst (snd (generate_model_from_function slugify f1 (r_namespace a1))),
                 rtype_adapter =
                   snd (snd (generate_model_from_function slugify f1 (r_namespace a1))),
                 metadata = r_register_kwargs a1\<rparr>"
    by (auto simp add: register_def Let_def split: if_splits prod.splits)
  then have "reg1 ?k \<noteq> None" by simp
  with same have "register slugify' reg1 a2 f2 = (Inl (DuplicateKey ?k), reg1)"
    by (simp add: register_def Let_def DuplicateKey_def)
  with entry show ?thesis by simp
qed

theorem duplicate_registration_rejected_witness:
  "register slugify_word empty_registry core_args core_add = (Inr add_wrapped, add_registry)
   \<and> register slugify_word add_registry (core_args\<lparr>r_description := ''Another add''\<rparr>) other_add
       = (Inl (ValueError ''UDF 'core.add' is already registered.''), add_registry)
   \<and> map_option description (add_registry ''core.add'') = Some ''Add two integers''"
proof -
  have same: "registry_key (r_namespace (core_args\<lparr>r_description := ''Another add''\<rparr>)) other_add
      = registry_key (r_namespace core_args) core_add"
    by (simp add: other_add_def registry_key_def core_add_def)
  have key: "registry_key (r_namespace core_args) core_add = ''core.add''"
    by (simp add: registry_key_def core_args_def core_add_def DEFAULT_NAMESPACE_def)
  note dup = duplicate_registration_rejected [OF register_add same, of slugify_word]
  have second: "register slugify_word add_registry (core_args\<lparr>r_description := ''Another add''\<rparr>)
      other_add = (Inl (DuplicateKey ''core.add''), add_registry)"
    using dup unfolding key by (rule conjunct1)
  have kept: "map_option description (add_registry ''core.add'') = Some (r_description core_args)"
    using dup unfolding key by simp
  show ?thesis
    using second kept register_add
    by (simp add: DuplicateKey_def repr_core_add core_args_def)
qed








subsection \<open>The invocation controller\<close>

lemma contextualize_message_parts:
  "contextualize_message tsk msg n loc =
     (''['' @ action tsk @ ''@'' @ ref tsk @ ''] (Attempt '' @ str_int n @ '')'')
       @ [newline, newline] @ msg"
  by (simp add: contextualize_message_def context_locator_def)

lemma contextualize_message_prefix:
  "prefix (''['' @ action tsk @ ''@'' @ ref tsk @ ''] (Attempt '' @ str_int n @ '')'')
     (contextualize_message tsk msg n loc)"
  unfolding contextualize_message_parts by (rule prefixI) simp

lemma contextualize_message_contains:
  "sublist msg (contextualize_message tsk msg n loc)"
  unfolding contextualize_message_parts sublist_def
  by (intro exI [of _ "(''['' @ action tsk @ ''@'' @ ref tsk @ ''] (Attempt '' @ str_int n @ '')'') @ [newline, newline]"]
      exI [of _ "[]"]) simp

lemma delay_elapses_cases:
  assumes "delay_elapses rt input"
  shows "(if start_delay (task input) > 0
          then (sleep rt (start_delay (task input)),
                [LogInfo ''Starting action with delay'', Sleep (start_delay (task input))])
          else (None, []))
       = (None, if start_delay (task input) > 0
                then [LogInfo ''Starting action with delay'', Sleep (start_delay (task input))]
                else [])"
  using assms by (simp add: delay_elapses_def split: if_splits)

text \<open>
  C2, as amended. When the delay of the attempt has elapsed and the dispatch raises an
  instance of \<open>Exception\<close> of class \<open>kind\<close> and text \<open>detail\<close> that is neither a
  \<open>RegistryActionError\<close> nor an \<open>ApplicationError\<close>: the memory-backend run surfaces a
  non-retryable failure of type \<open>kind\<close> whose message is the locator prefix followed by
  \<open><kind> occurred:\<close>, a line break and the detail; the store-backend run surfaces a
  failure that is left retryable and without a type, whose message is the locator prefix
  followed by the detail alone.
\<close>

theorem unknown_error_classification:
  assumes "delay_elapses rt input"
  shows "(run_action_memory_backend rt role input = Inl (OtherException kind detail) \<longrightarrow>
            fst (run_action_activity rt input role) =
              Inl (ApplicationError
                    \<lparr>app_class = ''ApplicationError'',
                     message = contextualize_message (task input)
                                 (kind @ '' occurred:'' @ [newline] @ detail) (attempt rt)
                                 ''run_action'',
                     details = [\<lparr>info_ref = ref (task input),
                                 info_message = kind @ '' occurred:'' @ [newline] @ detail,
                                 info_type = kind, info_attempt = attempt rt\<rparr>],
                     type = Some kind,
                     non_retryable = True\<rparr>)
            \<and> unknown_error_surfaced (task input) (attempt rt) kind detail
                  (fst (run_action_activity rt input role)))
       \<and> (run_action_store_backend rt role input = Inl (OtherException kind detail) \<longrightarrow>
            fst (run_action_with_store_activity rt input role) =
              Inl (ApplicationError
                    \<lparr>app_class = ''ApplicationError'',
                     message = contextualize_message (task input) detail (attempt rt)
                                 ''run_action'',
                     details = [\<lparr>info_ref = ref (task input), info_message = detail,
                                 info_type = kind, info_attempt = attempt rt\<rparr>],
                     type = None,
                     non_retryable = False\<rparr>))"
  by (simp add: run_action_activity_def run_action_with_store_activity_def Let_def
      delay_elapses_cases [OF assms] unknown_error_surfaced_def store_failure_def)

lemma fail_input_no_delay: "delay_elapses rt fail_input"
  by (simp add: delay_elapses_def fail_input_def step1_def)

theorem unknown_error_classification_witness:
  "delay_elapses crashing_runtime fail_input
   \<and> unknown_error_surfaced step1 2 ''RuntimeError'' ''disk full''
        (fst (run_action_activity crashing_runtime fail_input caller))
   \<and> fst (run_action_with_store_activity crashing_runtime fail_input caller) =
        Inl (ApplicationError
              \<lparr>app_class = ''ApplicationError'',
               message = ''[core.fail@step1] (Attempt 2)'' @ [newline, newline] @ ''disk full'',
               details = [\<lparr>info_ref = ''step1'', info_message = ''disk full'',
                           info_type = ''RuntimeError'', info_attempt = 2\<rparr>],
               type = None,
               non_retryable = False\<rparr>)"
proof -
  have d: "delay_elapses crashing_runtime fail_input" by (rule fail_input_no_delay)
  have m: "run_action_memory_backend crashing_runtime caller fail_input
             = Inl (OtherException ''RuntimeError'' ''disk full'')"
    and s: "run_action_store_backend crashing_runtime caller fail_input
             = Inl (OtherException ''RuntimeError'' ''disk full'')"
    by (simp_all add: crashing_runtime_def)
  have n: "attempt crashing_runtime = 2" by (simp add: crashing_runtime_def)
  have t: "task fail_input = step1" by (simp add: fail_input_def)
  have msg: "contextualize_message step1 ''disk full'' 2 ''run_action''
      = ''[core.fail@step1] (Attempt 2)'' @ [newline, newline] @ ''disk full''"
    by (simp add: contextualize_message_parts step1_def str_int_def str_nat.simps digit_char_def)
  have r: "ref step1 = ''step1''" by (simp add: step1_def)
  note inst = unknown_error_classification [OF d, of caller "''RuntimeError''" "''disk full''"]
  from inst m have "unknown_error_surfaced (task fail_input) (attempt crashing_runtime)
        ''RuntimeError'' ''disk full'' (fst (run_action_activity crashing_runtime fail_input caller))"
    by blast
  then have memory: "unknown_error_surfaced step1 2 ''RuntimeError'' ''disk full''
        (fst (run_action_activity crashing_runtime fail_input caller))"
    unfolding n t .
  from inst s have "fst (run_action_with_store_activity crashing_runtime fail_input caller) =
        Inl (ApplicationError
              \<lparr>app_class = ''ApplicationError'',
               message = contextualize_message (task fail_input) ''disk full''
                           (attempt crashing_runtime) ''run_action'',
               details = [\<lparr>info_ref = ref (task fail_input), info_message = ''disk full'',
                           info_type = ''RuntimeError'', info_attempt = attempt crashing_runtime\<rparr>],
               type = None,
               non_retryable = False\<rparr>)"
    by blast
  then have store: "fst (run_action_with_store_activity crashing_runtime fail_input caller) =
        Inl (ApplicationError
              \<lparr>app_class = ''ApplicationError'',
               message = ''[core.fail@step1] (Attempt 2)'' @ [newline, newline] @ ''disk full'',
               details = [\<lparr>info_ref = ''step1'', info_message = ''disk full'',
                           info_type = ''RuntimeError'', info_attempt = 2\<rparr>],
               type = None,
               non_retryable = False\<rparr>)"
    unfolding n t msg r .
  from d memory store show ?thesis by (intro conjI)
qed

text \<open>
  C2 as stated fails for the store-backend run: a \<open>RuntimeError\<close> of the store backend
  is surfaced as a retryable failure whose message has no \<open><kind> occurred:\<close> line.
\<close>

theorem store_unknown_error_counterexample:
  "\<not> unknown_error_surfaced step1 2 ''RuntimeError'' ''disk full''
        (fst (run_action_with_store_activity crashing_runtime fail_input caller))"
  by (simp add: run_action_with_store_activity_def Let_def crashing_runtime_def fail_input_def
      step1_def unknown_error_surfaced_def store_failure_def)

text \<open>
  C3, as amended. When the delay of the attempt has elapsed and the dispatch raises a
  domain action error \<open>e\<close>, the surfaced failure is retryable, whatever the retry intent
  of \<open>e\<close>; it carries the error info with the ref of the task, the text of \<open>e\<close>, the
  class name of \<open>e\<close> and the current attempt; and its message is the locator
  \<open>[<action>@<ref>] (Attempt <n>)\<close>, two line breaks and the text of \<open>e\<close>. The
  memory-backend run gives the failure the class name of \<open>e\<close> as its type, the
  store-backend run gives it no type.
\<close>

theorem domain_error_contextualized:
  assumes "delay_elapses rt input"
  shows "(run_action_memory_backend rt role input = Inl (RegistryActionError e) \<longrightarrow>
            fst (run_action_activity rt input role) =
              Inl (ApplicationError
                    \<lparr>app_class = ''ApplicationError'',
                     message = contextualize_message (task input) (de_str e) (attempt rt)
                                 ''run_action'',
                     details = [\<lparr>info_ref = ref (task input), info_message = de_str e,
                                 info_type = de_class e, info_attempt = attempt rt\<rparr>],
                     type = Some (de_class e),
                     non_retryable = False\<rparr>))
       \<and> (run_action_store_backend rt role input = Inl (RegistryActionError e) \<longrightarrow>
            fst (run_action_with_store_activity rt input role) =
              Inl (ApplicationError
                    \<lparr>app_class = ''ApplicationError'',
                     message = contextualize_message (task input) (de_str e) (attempt rt)
                                 ''run_action'',
                     details = [\<lparr>info_ref = ref (task input), info_message = de_str e,
                                 info_type = de_class e, info_attempt = attempt rt\<rparr>],
                     type = None,
                     non_retryable = False\<rparr>))
       \<and> contextualize_message (task input) (de_str e) (attempt rt) ''run_action'' =
           (''['' @ action (task input) @ ''@'' @ ref (task input) @ ''] (Attempt ''
              @ str_int (attempt rt) @ '')'') @ [newline, newline] @ de_str e
       \<and> prefix (''['' @ action (task input) @ ''@'' @ ref (task input) @ ''] (Attempt ''
                   @ str_int (attempt rt) @ '')'')
           (contextualize_message (task input) (de_str e) (attempt rt) ''run_action'')
       \<and> sublist (de_str e)
           (contextualize_message (task input) (de_str e) (attempt rt) ''run_action'')"
proof -
  have memory: "fst (run_action_activity rt input role) =
              Inl (ApplicationError
                    \<lparr>app_class = ''ApplicationError'',
                     message = contextualize_message (task input) (de_str e) (attempt rt)
                                 ''run_action'',
                     details = [\<lparr>info_ref = ref (task input), info_message = de_str e,
                                 info_type = de_class e, info_attempt = attempt rt\<rparr>],
                     type = Some (de_class e),
                     non_retryable = False\<rparr>)"
    if "run_action_memory_backend rt role input = Inl (RegistryActionError e)"
    using that by (simp add: run_action_activity_def Let_def delay_elapses_cases [OF assms])
  have store: "fst (run_action_with_store_activity rt input role) =
              Inl (ApplicationError
                    \<lparr>app_class = ''ApplicationError'',
                     message = contextualize_message (task input) (de_str e) (attempt rt)
                                 ''run_action'',
                     details = [\<lparr>info_ref = ref (task input), info_message = de_str e,
                                 info_type = de_class e, info_attempt = attempt rt\<rparr>],
                     type = None,
                     non_retryable = False\<rparr>)"
    if "run_action_store_backend rt role input = Inl (RegistryActionError e)"
    using that
    by (simp add: run_action_with_store_activity_def Let_def delay_elapses_cases [OF assms]
        store_failure_def)
  show ?thesis
    using memory store
      contextualize_message_parts [of "task input" "de_str e" "attempt rt" "''run_action''"]
      contextualize_message_prefix [of "task input" "attempt rt" "de_str e" "''run_action''"]
      contextualize_message_contains [of "de_str e" "task input" "attempt rt" "''run_action''"]
    by blast
qed

theorem domain_error_contextualized_witness:
  "delay_elapses failing_runtime fail_input
   \<and> run_action_memory_backend failing_runtime caller fail_input = Inl (RegistryActionError boom)
   \<and> fst (run_action_activity failing_runtime fail_input caller) =
     Inl (ApplicationError
           \<lparr>app_class = ''ApplicationError'',
            message = ''[core.fail@step1] (Attempt 1)'' @ [newline, newline] @ ''boom'',
            details = [\<lparr>info_ref = ''step1'', info_message = ''boom'',
                        info_type = ''RegistryActionError'', info_attempt = 1\<rparr>],
            type = Some ''RegistryActionError'',
            non_retryable = False\<rparr>)
   \<and> run_action_store_backend failing_runtime caller fail_input = Inl (RegistryActionError boom)
   \<and> fst (run_action_with_store_activity failing_runtime fail_input caller) =
     Inl (ApplicationError
           \<lparr>app_class = ''ApplicationError'',
            message = ''[core.fail@step1] (Attempt 1)'' @ [newline, newline] @ ''boom'',
            details = [\<lparr>info_ref = ''step1'', info_message = ''boom'',
                        info_type = ''RegistryActionError'', info_attempt = 1\<rparr>],
            type = None,
            non_retryable = False\<rparr>)
   \<and> prefix ''[core.fail@step1] (Attempt 1)''
        (''[core.fail@step1] (Attempt 1)'' @ [newline, newline] @ ''boom'')
   \<and> sublist ''boom'' (''[core.fail@step1] (Attempt 1)'' @ [newline, newline] @ ''boom'')"
proof -
  have d: "delay_elapses failing_runtime fail_input" by (rule fail_input_no_delay)
  have m: "run_action_memory_backend failing_runtime caller fail_input
             = Inl (RegistryActionError boom)"
    and st: "run_action_store_backend failing_runtime caller fail_input
             = Inl (RegistryActionError boom)"
    by (simp_all add: failing_runtime_def)
  have n: "attempt failing_runtime = 1" by (simp add: failing_runtime_def)
  have t: "task fail_input = step1" by (simp add: fail_input_def)
  have loc: "''['' @ action step1 @ ''@'' @ ref step1 @ ''] (Attempt '' @ str_int 1 @ '')''
      = ''[core.fail@step1] (Attempt 1)''"
    by (simp add: step1_def str_int_def str_nat.simps digit_char_def)
  have b: "de_str boom = ''boom''" "de_class boom = ''RegistryActionError''"
    by (simp_all add: boom_def)
  have r: "ref step1 = ''step1''" by (simp add: step1_def)
  have msg: "contextualize_message step1 ''boom'' 1 ''run_action''
      = ''[core.fail@step1] (Attempt 1)'' @ [newline, newline] @ ''boom''"
    by (simp add: contextualize_message_parts step1_def str_int_def str_nat.simps digit_char_def)
  note inst = domain_error_contextualized [OF d, of caller boom, unfolded n t b, unfolded loc,
      unfolded r msg]
  from inst d m st show ?thesis by blast
qed

text \<open>
  C3 as stated fails for a domain error that the action marked non-retryable: the
  failure surfaced for it is retryable.
\<close>

theorem retry_intent_counterexample:
  "\<not> de_retryable boom
   \<and> \<not> retry_intent_preserved boom (fst (run_action_activity failing_runtime fail_input caller))"
  by (simp add: run_action_activity_def Let_def failing_runtime_def fail_input_def step1_def
      retry_intent_preserved_def boom_def)

text \<open>
  C5. A store-mode run that returns normally returns the pointer that \<open>to_pointer\<close>
  gave for the handle of the store backend. The value is a \<open>StoreObjectPtr\<close>: the
  result payload of the action, a \<open>pyval\<close>, is not a possible return value.
\<close>

theorem store_run_returns_pointer:
  assumes "fst (run_action_with_store_activity rt input role) = Inr ptr"
  shows "\<exists>handle. run_action_store_backend rt role input = Inr handle
           \<and> to_pointer rt handle = Inr ptr
           \<and> ToPointer handle \<in> set (snd (run_action_with_store_activity rt input role))"
  using assms
  by (auto simp add: run_action_with_store_activity_def Let_def
      split: if_splits option.splits sum.splits)

theorem store_run_returns_pointer_witness:
  "fst (run_action_with_store_activity working_runtime fail_input caller)
     = Inr (StoreObjectPtr ''obj-1'')
   \<and> run_action_store_backend working_runtime caller fail_input = Inr (ActionRefHandle ''obj-1'')
   \<and> to_pointer working_runtime (ActionRefHandle ''obj-1'') = Inr (StoreObjectPtr ''obj-1'')"
proof -
  have run: "fst (run_action_with_store_activity working_runtime fail_input caller)
     = Inr (StoreObjectPtr ''obj-1'')"
    by (simp add: run_action_with_store_activity_def Let_def working_runtime_def fail_input_def
        step1_def pointer_of_def)
  from store_run_returns_pointer [OF run] obtain handle where
    h: "run_action_store_backend working_runtime caller fail_input = Inr handle"
       "to_pointer working_runtime handle = Inr (StoreObjectPtr ''obj-1'')"
    by blast
  moreover from h(1) have "handle = ActionRefHandle ''obj-1''"
    by (simp add: working_runtime_def)
  ultimately show ?thesis using run by simp
qed

lemma sleeps_append: "sleeps (xs @ ys) = sleeps xs @ sleeps ys"
  by (induction xs rule: sleeps.induct) auto

text \<open>
  C7. In both run operations, with a start delay above 0 the attempt sleeps for the
  delay, once, and the sleep lies in the part of the trace before the dispatch; the
  dispatch follows when the sleep returns, and does not happen when the sleep raises.
  With a start delay that is not above 0, such as 0, the attempt does not sleep.
\<close>

theorem start_delay_precedes_dispatch:
  "(0 < start_delay (task input) \<longrightarrow>
      sleeps (before_dispatch (snd (run_action_activity rt input role)))
        = [start_delay (task input)]
      \<and> sleeps (before_dispatch (snd (run_action_with_store_activity rt input role)))
        = [start_delay (task input)]
      \<and> sleeps (snd (run_action_activity rt input role)) = [start_delay (task input)]
      \<and> sleeps (snd (run_action_with_store_activity rt input role))
        = [start_delay (task input)]
      \<and> (sleep rt (start_delay (task input)) = None \<longrightarrow>
           filter is_dispatch (snd (run_action_activity rt input role))
             = [RunMemoryBackend role input]
           \<and> filter is_dispatch (snd (run_action_with_store_activity rt input role))
             = [RunStoreBackend role input])
      \<and> (sleep rt (start_delay (task input)) \<noteq> None \<longrightarrow>
           filter is_dispatch (snd (run_action_activity rt input role)) = []
           \<and> filter is_dispatch (snd (run_action_with_store_activity rt input role)) = []))
   \<and> (\<not> 0 < start_delay (task input) \<longrightarrow>
        sleeps (snd (run_action_activity rt input role)) = []
        \<and> sleeps (snd (run_action_with_store_activity rt input role)) = []
        \<and> filter is_dispatch (snd (run_action_activity rt input role))
             = [RunMemoryBackend role input]
        \<and> filter is_dispatch (snd (run_action_with_store_activity rt input role))
             = [RunStoreBackend role input])"
  by (auto simp add: run_action_activity_def run_action_with_store_activity_def Let_def
      before_dispatch_def sleeps_append
      split: option.splits sum.splits raised.splits)

theorem start_delay_precedes_dispatch_witness:
  "0 < start_delay (task delayed_input)
   \<and> snd (run_action_activity working_runtime delayed_input caller)
       = [CtxRunSet context1, CtxLoggerSet, LogInfo ''Run action activity'',
          LogInfo ''Starting action with delay'', Sleep 5,
          RunMemoryBackend caller delayed_input]
   \<and> sleeps (before_dispatch (snd (run_action_activity working_runtime delayed_input caller)))
       = [5]
   \<and> sleeps (before_dispatch
         (snd (run_action_with_store_activity working_runtime delayed_input caller))) = [5]
   \<and> \<not> 0 < start_delay (task fail_input)
   \<and> sleeps (snd (run_action_activity working_runtime fail_input caller)) = []
   \<and> sleeps (snd (run_action_with_store_activity working_runtime fail_input caller)) = []"
proof -
  have d5: "start_delay (task delayed_input) = 5"
    by (simp add: delayed_input_def)
  have d0: "start_delay (task fail_input) = 0"
    by (simp add: fail_input_def step1_def)
  have tr: "snd (run_action_activity working_runtime delayed_input caller)
       = [CtxRunSet context1, CtxLoggerSet, LogInfo ''Run action activity'',
          LogInfo ''Starting action with delay'', Sleep 5,
          RunMemoryBackend caller delayed_input]"
    by (simp add: run_action_activity_def Let_def d5 working_runtime_def)
      (simp add: delayed_input_def)
  from start_delay_precedes_dispatch [of delayed_input working_runtime caller]
    start_delay_precedes_dispatch [of fail_input working_runtime caller]
  show ?thesis
    unfolding d5 d0 using tr by simp
qed

subsection \<open>The history correlator\<close>

lemma split_from_nonempty: "split_from sep acc s \<noteq> []"
  by (induction sep acc s rule: split_from.induct) auto

lemma str_join_Cons: "str_join sep (p # ps) = (if ps = [] then p else p @ sep @ str_join sep ps)"
  by (cases ps) auto

lemma str_join_snoc: "str_join sep (xs @ [y]) = (if xs = [] then y else str_join sep xs @ sep @ y)"
  by (induction sep xs rule: str_join.induct) auto

lemma join_split_char: "str_join [c] (split_from [c] acc s) = rev acc @ s"
proof (induction s arbitrary: acc)
  case Nil
  then show ?case by simp
next
  case (Cons x xs)
  show ?case
  proof (cases "x = c")
    case True
    then show ?thesis
      using Cons [of "[]"] by (simp add: str_join_Cons split_from_nonempty)
  next
    case False
    then show ?thesis
      using Cons [of "x # acc"] by simp
  qed
qed

lemma split_char_pieces: "c \<notin> set acc \<Longrightarrow> p \<in> set (split_from [c] acc s) \<Longrightarrow> c \<notin> set p"
proof (induction s arbitrary: acc)
  case Nil
  then show ?case by simp
next
  case (Cons x xs)
  show ?case
  proof (cases "x = c")
    case True
    with Cons.prems have "p = rev acc \<or> p \<in> set (split_from [c] [] xs)" by simp
    then show ?thesis
      using Cons.IH [of "[]"] Cons.prems(1) by auto
  next
    case False
    with Cons.prems have "p \<in> set (split_from [c] (x # acc) xs)" by simp
    then show ?thesis
      using Cons.IH [of "x # acc"] Cons.prems(1) False by auto
  qed
qed

lemma last_delimiter_unique:
  assumes "xs @ c # ys = xs' @ c # ys'" and "c \<notin> set ys" and "c \<notin> set ys'"
  shows "xs = xs' \<and> ys = ys'"
proof -
  have upto: "takeWhile (\<lambda>x. x \<noteq> c) (zs @ c # rest) = zs" if "c \<notin> set zs" for zs rest
    using that by (induction zs) auto
  have tw: "takeWhile (\<lambda>x. x \<noteq> c) (rev zs @ c # rest) = rev zs" if "c \<notin> set zs" for zs rest
    using that upto [of "rev zs" rest] by simp
  from assms(1) have "rev (xs @ c # ys) = rev (xs' @ c # ys')" by simp
  then have eq: "rev ys @ c # rev xs = rev ys' @ c # rev xs'" by simp
  have "rev ys = rev ys'"
    using tw [OF assms(2), of "rev xs"] tw [OF assms(3), of "rev xs'"] eq by simp
  then have "ys = ys'" by simp
  with assms(1) show ?thesis by simp
qed

lemma destructure_dot:
  assumes "s = ns @ ''.'' @ nm" and "CHR ''.'' \<notin> set nm"
  shows "destructure_slugified_namespace s ''.'' = Inr (ns, nm)"
proof -
  define parts where "parts = split_from ''.'' [] s"
  have ne: "parts \<noteq> []" by (simp add: parts_def split_from_nonempty)
  then have decomp: "parts = butlast parts @ [last parts]" by simp
  have joined: "str_join ''.'' parts = s"
    using join_split_char [of "CHR ''.''" "[]" s] by (simp add: parts_def)
  have leaf: "CHR ''.'' \<notin> set (last parts)"
    using split_char_pieces [of "CHR ''.''" "[]" "last parts" s] ne by (simp add: parts_def)
  have stem: "butlast parts \<noteq> []"
  proof
    assume "butlast parts = []"
    with decomp joined have "s = last parts"
      by (metis append_Nil str_join.simps(2))
    with leaf assms(1) show False by simp
  qed
  have "s = str_join ''.'' (butlast parts) @ ''.'' @ last parts"
    using joined decomp stem str_join_snoc [of "''.''" "butlast parts" "last parts"] by simp
  with assms(1) have "str_join ''.'' (butlast parts) @ CHR ''.'' # last parts = ns @ CHR ''.'' # nm"
    by simp
  from last_delimiter_unique [OF this leaf assms(2)]
  have "str_join ''.'' (butlast parts) = ns" "last parts = nm" by simp_all
  then show ?thesis
    using ne by (simp add: destructure_slugified_namespace_def str_split_def parts_def)
qed

text \<open>
  C8. For a scheduled event whose first payload decodes to an input, and an action key
  that is a namespace, a dot and a name without a dot: the event group has the part of
  the key before the last dot as its namespace, the part after it as the name of the
  action, and the whole key as its key, with the id of the event and the id, ref, title
  and description of the step.
\<close>

theorem event_group_namespace_split:
  assumes "event_type ev = EVENT_TYPE_ACTIVITY_TASK_SCHEDULED"
    and "scheduled_input_payloads ev = payload # others"
    and "loads payload = Inr ainput"
    and "action (task ainput) = ns @ ''.'' @ nm"
    and "CHR ''.'' \<notin> set nm"
  shows "from_scheduled_activity loads ev =
           Inr \<lparr>group_event_id = event_id ev,
                udf_namespace = ns,
                udf_name = nm,
                udf_key = action (task ainput),
                action_id = stmt_id (task ainput),
                action_ref = ref (task ainput),
                action_title = title (task ainput),
                action_description = stmt_description (task ainput),
                action_input = ainput,
                action_result = None\<rparr>"
  using assms(1,2,3) destructure_dot [OF assms(4,5)]
  by (simp add: from_scheduled_activity_def)

theorem event_group_namespace_split_witness:
  "from_scheduled_activity loads_example scheduled_event =
     Inr \<lparr>group_event_id = 5,
          udf_namespace = ''integrations.slack'',
          udf_name = ''post_message'',
          udf_key = ''integrations.slack.post_message'',
          action_id = Some ''act-2'',
          action_ref = ''notify'',
          action_title = ''Notify'',
          action_description = ''Post to Slack'',
          action_input = slack_input,
          action_result = None\<rparr>"
proof -
  have ty: "event_type scheduled_event = EVENT_TYPE_ACTIVITY_TASK_SCHEDULED"
    and ps: "scheduled_input_payloads scheduled_event = ''slack-step'' # [''second payload'']"
    by (simp_all add: scheduled_event_def)
  have ld: "loads_example ''slack-step'' = Inr slack_input"
    by (simp add: loads_example_def)
  have key: "action (task slack_input) = ''integrations.slack'' @ ''.'' @ ''post_message''"
    by (simp add: slack_input_def)
  have leaf: "CHR ''.'' \<notin> set ''post_message''" by simp
  from event_group_namespace_split [where loads = loads_example and payload = "''slack-step''",
      OF ty ps ld key leaf]
  show ?thesis
    by (simp add: scheduled_event_def slack_input_def)
qed

text \<open>
  C9. An event whose type is not \<open>ACTIVITY_TASK_SCHEDULED\<close> is rejected by
  \<open>from_scheduled_activity\<close>, and one whose type is neither \<open>ACTIVITY_TASK_FAILED\<close> nor
  \<open>WORKFLOW_EXECUTION_FAILED\<close> is rejected by \<open>from_history_event\<close>, each with the
  \<open>ValueError\<close> that is the error kind \<open>UnsupportedEventKind\<close>; a
  \<open>WORKFLOW_EXECUTION_STARTED\<close> event is rejected by both.
\<close>

theorem unsupported_event_kinds_rejected:
  "(event_type ev \<noteq> EVENT_TYPE_ACTIVITY_TASK_SCHEDULED \<longrightarrow>
      from_scheduled_activity loads ev
        = Inl (ValueError ''Event is not an activity task scheduled event.'')
      \<and> UnsupportedEventKind (ValueError ''Event is not an activity task scheduled event.''))
   \<and> (event_type ev \<noteq> EVENT_TYPE_ACTIVITY_TASK_FAILED
        \<and> event_type ev \<noteq> EVENT_TYPE_WORKFLOW_EXECUTION_FAILED \<longrightarrow>
      from_history_event cause_to_dict info_to_dict ev
        = Inl (ValueError ''Event type not supported for failure extraction.'')
      \<and> UnsupportedEventKind (ValueError ''Event type not supported for failure extraction.''))
   \<and> (event_type ev = EVENT_TYPE_WORKFLOW_EXECUTION_STARTED \<longrightarrow>
      from_scheduled_activity loads ev
        = Inl (ValueError ''Event is not an activity task scheduled event.'')
      \<and> from_history_event cause_to_dict info_to_dict ev
        = Inl (ValueError ''Event type not supported for failure extraction.''))"
  by (simp add: from_scheduled_activity_def from_history_event_def)

theorem unsupported_event_kinds_rejected_witness:
  "event_type started_event = EVENT_TYPE_WORKFLOW_EXECUTION_STARTED
   \<and> from_scheduled_activity loads_example started_event
        = Inl (ValueError ''Event is not an activity task scheduled event.'')
   \<and> from_history_event (\<lambda>c. []) (\<lambda>i. i) started_event
        = Inl (ValueError ''Event type not supported for failure extraction.'')"
proof -
  have ty: "event_type started_event = EVENT_TYPE_WORKFLOW_EXECUTION_STARTED"
    by (simp add: started_event_def)
  from unsupported_event_kinds_rejected [of started_event loads_example "\<lambda>c. []" "\<lambda>i. i"] ty
  show ?thesis by simp
qed

text \<open>
  C10. A scheduled event with a first payload and any further payloads gives what
  decoding the first payload gives: the exception of the decoder, or the event group
  built from the decoded input, which it holds as its \<open>action_input\<close>. The further
  payloads are not read: the result is the result for the same event with the first
  payload alone.
\<close>

theorem only_first_payload_decoded:
  "from_scheduled_activity loads
       (ev\<lparr>event_type := EVENT_TYPE_ACTIVITY_TASK_SCHEDULED,
           scheduled_input_payloads := payload # extra\<rparr>)
     = (case loads payload of
          Inl e \<Rightarrow> Inl e
        | Inr ainput \<Rightarrow>
            Inr \<lparr>group_event_id = event_id ev,
                 udf_namespace = str_join ''.'' (butlast (split_from ''.'' [] (action (task ainput)))),
                 udf_name = last (split_from ''.'' [] (action (task ainput))),
                 udf_key = action (task ainput),
                 action_id = stmt_id (task ainput),
                 action_ref = ref (task ainput),
                 action_title = title (task ainput),
                 action_description = stmt_description (task ainput),
                 action_input = ainput,
                 action_result = None\<rparr>)
   \<and> from_scheduled_activity loads (ev\<lparr>scheduled_input_payloads := payload # extra\<rparr>)
     = from_scheduled_activity loads (ev\<lparr>scheduled_input_payloads := [payload]\<rparr>)"
proof -
  have first: "from_scheduled_activity loads
       (ev\<lparr>event_type := EVENT_TYPE_ACTIVITY_TASK_SCHEDULED,
           scheduled_input_payloads := payload # extra\<rparr>)
     = (case loads payload of
          Inl e \<Rightarrow> Inl e
        | Inr ainput \<Rightarrow>
            Inr \<lparr>group_event_id = event_id ev,
                 udf_namespace = str_join ''.'' (butlast (split_from ''.'' [] (action (task ainput)))),
                 udf_name = last (split_from ''.'' [] (action (task ainput))),
                 udf_key = action (task ainput),
                 action_id = stmt_id (task ainput),
                 action_ref = ref (task ainput),
                 action_title = title (task ainput),
                 action_description = stmt_description (task ainput),
                 action_input = ainput,
                 action_result = None\<rparr>)"
    by (simp add: from_scheduled_activity_def destructure_slugified_namespace_def
        str_split_def split_from_nonempty split: sum.splits)
  have rest: "from_scheduled_activity loads (ev\<lparr>scheduled_input_payloads := payload # extra\<rparr>)
     = from_scheduled_activity loads (ev\<lparr>scheduled_input_payloads := [payload]\<rparr>)"
    by (simp add: from_scheduled_activity_def split: sum.splits prod.splits)
  from first rest show ?thesis by (rule conjI)
qed

theorem only_first_payload_decoded_witness:
  "from_scheduled_activity loads_example scheduled_event =
     Inr \<lparr>group_event_id = 5,
          udf_namespace = ''integrations.slack'',
          udf_name = ''post_message'',
          udf_key = ''integrations.slack.post_message'',
          action_id = Some ''act-2'',
          action_ref = ''notify'',
          action_title = ''Notify'',
          action_description = ''Post to Slack'',
          action_input = slack_input,
          action_result = None\<rparr>
   \<and> from_scheduled_activity loads_example scheduled_event
     = from_scheduled_activity loads_example
         (scheduled_event\<lparr>scheduled_input_payloads := [''slack-step'']\<rparr>)"
proof -
  have ev: "scheduled_event\<lparr>event_type := EVENT_TYPE_ACTIVITY_TASK_SCHEDULED,
              scheduled_input_payloads := ''slack-step'' # [''second payload'']\<rparr>
      = scheduled_event"
    and ev': "scheduled_event\<lparr>scheduled_input_payloads := ''slack-step'' # [''second payload'']\<rparr>
      = scheduled_event"
    by (simp_all add: scheduled_event_def)
  have ld: "loads_example ''slack-step'' = Inr slack_input"
    by (simp add: loads_example_def)
  have parts: "split_from ''.'' [] (action (task slack_input))
      = [''integrations'', ''slack'', ''post_message'']"
    by (simp add: slack_input_def)
  have fields: "event_id scheduled_event = 5" "action (task slack_input) = ''integrations.slack.post_message''"
    "stmt_id (task slack_input) = Some ''act-2''" "ref (task slack_input) = ''notify''"
    "title (task slack_input) = ''Notify''" "stmt_description (task slack_input) = ''Post to Slack''"
    by (simp_all add: scheduled_event_def slack_input_def)
  note inst = only_first_payload_decoded [where loads = loads_example and ev = scheduled_event
      and payload = "''slack-step''" and extra = "[''second payload'']",
      unfolded ev ev' ld parts]
  from inst [THEN conjunct1] have decoded: "from_scheduled_activity loads_example scheduled_event =
     Inr \<lparr>group_event_id = 5,
          udf_namespace = ''integrations.slack'',
          udf_name = ''post_message'',
          udf_key = ''integrations.slack.post_message'',
          action_id = Some ''act-2'',
          action_ref = ''notify'',
          action_title = ''Notify'',
          action_description = ''Post to Slack'',
          action_input = slack_input,
          action_result = None\<rparr>"
    by (simp add: fields)
  from decoded inst [THEN conjunct2] show ?thesis by (rule conjI)
qed

end
